theory Spec2Isabelle
  imports Main
begin

section \<open>Strings and regular expressions of the host language\<close>

text \<open>
  A string of the source is a \<^typ>\<open>string\<close>, one \<^typ>\<open>char\<close> for each code unit; the
  model covers the code units below 256 (ASCII and Latin-1).
\<close>

definition isWhiteSpace :: "char \<Rightarrow> bool" where
  \<comment> \<open>the characters of \<open>\s\<close> and of \<open>trim\<close> below 256: TAB, LF, VT, FF, CR, space, NBSP\<close>
  "isWhiteSpace c = (of_char c \<in> {9, 10, 11, 12, 13, 32, 160 :: nat})"

definition isDigit :: "char \<Rightarrow> bool" where
  \<comment> \<open>\<open>\d\<close>\<close>
  "isDigit c = (48 \<le> (of_char c :: nat) \<and> (of_char c :: nat) \<le> 57)"

definition trim :: "string \<Rightarrow> string" where
  "trim s = rev (dropWhile isWhiteSpace (rev (dropWhile isWhiteSpace s)))"

definition lowerChar :: "char \<Rightarrow> char" where
  \<comment> \<open>A-Z, and the Latin-1 capitals 0xC0-0xDE without the multiplication sign 0xD7\<close>
  "lowerChar c =
     (let n = (of_char c :: nat)
      in if (65 \<le> n \<and> n \<le> 90) \<or> (192 \<le> n \<and> n \<le> 222 \<and> n \<noteq> 215)
         then char_of (n + 32) else c)"

definition toLowerCase :: "string \<Rightarrow> string" where
  "toLowerCase s = map lowerChar s"

datatype regex =
    Never
  | Empty
  | Cls "char \<Rightarrow> bool"
  | Seq regex regex
  | Alt regex regex
  | Star regex

fun nullable :: "regex \<Rightarrow> bool" where
  "nullable Never = False"
| "nullable Empty = True"
| "nullable (Cls p) = False"
| "nullable (Seq r1 r2) = (nullable r1 \<and> nullable r2)"
| "nullable (Alt r1 r2) = (nullable r1 \<or> nullable r2)"
| "nullable (Star r) = True"

fun deriv :: "char \<Rightarrow> regex \<Rightarrow> regex" where
  "deriv c Never = Never"
| "deriv c Empty = Never"
| "deriv c (Cls p) = (if p c then Empty else Never)"
| "deriv c (Seq r1 r2) =
     (if nullable r1 then Alt (Seq (deriv c r1) r2) (deriv c r2) else Seq (deriv c r1) r2)"
| "deriv c (Alt r1 r2) = Alt (deriv c r1) (deriv c r2)"
| "deriv c (Star r) = Seq (deriv c r) (Star r)"

fun matches :: "regex \<Rightarrow> string \<Rightarrow> bool" where
  \<comment> \<open>the whole string is a word of the expression: \<open>/^r$/.test(s)\<close>\<close>
  "matches r [] = nullable r"
| "matches r (c # cs) = matches (deriv c r) cs"

definition Plus :: "regex \<Rightarrow> regex" where
  "Plus r = Seq r (Star r)"

definition Lit :: "char \<Rightarrow> regex" where
  "Lit a = Cls (\<lambda>c. c = a)"

fun Word :: "string \<Rightarrow> regex" where
  "Word [] = Empty"
| "Word (a # as) = Seq (Lit a) (Word as)"

fun searchToEnd :: "regex \<Rightarrow> string \<Rightarrow> string option" where
  \<comment> \<open>\<open>s.match(/r$/)\<close>: the leftmost position from which the rest of the string is a word
      of \<open>r\<close>; the result is the matched text\<close>
  "searchToEnd r [] = (if matches r [] then Some [] else None)"
| "searchToEnd r (c # cs) = (if matches r (c # cs) then Some (c # cs) else searchToEnd r cs)"

section \<open>Validation utilities (utils/validation.ts)\<close>

definition notSpaceOrAt :: "char \<Rightarrow> bool" where
  \<comment> \<open>\<open>[^\s@]\<close>\<close>
  "notSpaceOrAt c = (\<not> isWhiteSpace c \<and> c \<noteq> CHR ''@'')"

definition emailRegex :: regex where
  \<comment> \<open>\<open>/^[^\s@]+@[^\s@]+\.[^\s@]+$/\<close>\<close>
  "emailRegex =
     Seq (Plus (Cls notSpaceOrAt))
       (Seq (Lit CHR ''@'')
         (Seq (Plus (Cls notSpaceOrAt))
           (Seq (Lit CHR ''.'') (Plus (Cls notSpaceOrAt)))))"

definition isValidEmail :: "string \<Rightarrow> bool" where
  "isValidEmail email = (if email = [] then False else matches emailRegex (trim email))"

definition numericRegex :: regex where
  \<comment> \<open>\<open>/^\d+$/\<close>\<close>
  "numericRegex = Plus (Cls isDigit)"

definition isValidVariantId :: "string \<Rightarrow> bool" where
  "isValidVariantId variantId =
     (if variantId = [] then False
      else matches (Seq (Word ''gid://shopify/ProductVariant/'') (Plus (Cls isDigit))) variantId
           \<or> matches numericRegex variantId)"

definition isValidProductId :: "string \<Rightarrow> bool" where
  "isValidProductId productId =
     (if productId = [] then False
      else matches (Seq (Word ''gid://shopify/Product/'') (Plus (Cls isDigit))) productId
           \<or> matches numericRegex productId)"

definition extractNumericId :: "string \<Rightarrow> string" where
  \<comment> \<open>\<open>gid.match(/\/(\d+)$/)\<close>; the group is the match without its leading slash\<close>
  "extractNumericId gid =
     (if gid = [] then []
      else case searchToEnd (Seq (Lit CHR ''/'') (Plus (Cls isDigit))) gid of
             Some m \<Rightarrow> tl m
           | None \<Rightarrow> gid)"

definition sanitizeInput :: "string \<Rightarrow> string" where
  "sanitizeInput input =
     (if input = [] then []
      else take 500 (filter (\<lambda>c. c \<noteq> CHR ''<'' \<and> c \<noteq> CHR ''>'') (trim input)))"

section \<open>Shared data (types.ts, utils/constants.ts)\<close>

text \<open>
  The records follow the interfaces of types.ts, an optional field (\<open>field?:\<close>) or a
  nullable one (\<open>string | null\<close>) being an \<^typ>\<open>'a option\<close>. Of \<open>VariantInfo\<close> the fields
  \<open>sku\<close>, \<open>price\<close> and \<open>image\<close> are left out: no hook reads them.
\<close>

record RestockBridgeConfig =
  apiUrl :: string
  shopDomain :: string
  apiKey :: "string option"

record VariantInfo =
  id' :: string
  productId :: string
  productTitle :: string
  variantTitle :: "string option"
  availableForSale :: bool
  quantityAvailable :: "int option"

datatype AvailabilityStatus = available | out_of_stock | preorder

record LeaveWaitlistResponse =
  success :: bool
  message :: "string option"
  error :: "string option"

record JoinWaitlistResponse =
  success :: bool
  entryId :: "string option"
  message :: "string option"
  error :: "string option"

record WaitlistCountResponse =
  variantId :: string
  count :: int

record ErrorMessages =
  invalidEmail :: string
  alreadyJoined :: string
  notOnWaitlist :: string
  network :: string
  rateLimited :: string
  unknown :: string

definition DEFAULT_ERROR_MESSAGES :: ErrorMessages where
  "DEFAULT_ERROR_MESSAGES =
     \<lparr>invalidEmail = ''Please enter a valid email address.'',
      alreadyJoined = ''You are already on the waitlist for this product.'',
      notOnWaitlist = ''You are not on the waitlist for this product.'',
      network = ''Network error. Please try again.'',
      rateLimited = ''Too many requests. Please try again later.'',
      unknown = ''An unexpected error occurred.''\<rparr>"

record SuccessMessages =
  joined :: string
  left :: string

definition DEFAULT_SUCCESS_MESSAGES :: SuccessMessages where
  "DEFAULT_SUCCESS_MESSAGES =
     \<lparr>joined = ''You've been added to the waitlist. We'll email you when it's back in stock.'',
      left = ''You've been removed from the waitlist.''\<rparr>"

record ApiEndpoints =
  joinPath :: string
  leavePath :: string
  countPath :: string

definition API_ENDPOINTS :: ApiEndpoints where
  \<comment> \<open>the fields \<open>join\<close>, \<open>leave\<close> and \<open>count\<close> of the source\<close>
  "API_ENDPOINTS =
     \<lparr>joinPath = ''/api/v1/join'', leavePath = ''/api/v1/leave'', countPath = ''/api/v1/count''\<rparr>"

section \<open>The availability classifier (hooks/useVariantAvailability.ts)\<close>

record UseVariantAvailabilityOptions =
  variant :: "VariantInfo option"
  lowStockThreshold :: "int option"

record UseVariantAvailabilityReturn =
  status :: AvailabilityStatus
  isAvailable :: bool
  isOutOfStock :: bool
  isLowStock :: bool
  showNotifyMe :: bool
  quantityAvailable :: "int option"

definition useVariantAvailability ::
  "UseVariantAvailabilityOptions \<Rightarrow> UseVariantAvailabilityReturn" where
  "useVariantAvailability options =
     (let threshold = (case lowStockThreshold options of Some t \<Rightarrow> t | None \<Rightarrow> 5)
      in case UseVariantAvailabilityOptions.variant options of
           None \<Rightarrow>
             \<lparr>status = out_of_stock, isAvailable = False, isOutOfStock = True,
              isLowStock = False, showNotifyMe = False,
              UseVariantAvailabilityReturn.quantityAvailable = None\<rparr>
         | Some v \<Rightarrow>
             (let qty = VariantInfo.quantityAvailable v;
                  st = (if \<not> availableForSale v then out_of_stock
                        else if qty \<noteq> None \<and> qty = Some 0 then preorder
                        else available);
                  outOfStock = (\<not> availableForSale v);
                  lowStock = (availableForSale v
                              \<and> (case qty of Some q \<Rightarrow> 0 < q \<and> q \<le> threshold | None \<Rightarrow> False))
              in \<lparr>status = st, isAvailable = availableForSale v, isOutOfStock = outOfStock,
                  isLowStock = lowStock, showNotifyMe = outOfStock,
                  UseVariantAvailabilityReturn.quantityAvailable = qty\<rparr>))"

section \<open>The network, as the hooks see it\<close>

record HttpRequest =
  httpMethod :: string
  url :: string
  headers :: "(string \<times> string) list"
  body :: "(string \<times> string) list option"

text \<open>
  What \<open>await fetch(...)\<close> and \<open>await res.json()\<close> give back is an input of the model:
  either promise may reject with a thrown value, and a response carries a status.
\<close>

datatype thrown = Error string | NonError

datatype 'r Response = Response (status: nat) (json: "thrown + 'r")

datatype 'r fetched = Rejected thrown | Resolved "'r Response"

definition ok :: "'r Response \<Rightarrow> bool" where
  "ok res = (200 \<le> status res \<and> status res \<le> 299)"

definition authorization :: "RestockBridgeConfig \<Rightarrow> (string \<times> string) list" where
  \<comment> \<open>\<open>...(config.apiKey && { Authorization: `Bearer ${config.apiKey}` })\<close>\<close>
  "authorization config =
     (case apiKey config of
        None \<Rightarrow> []
      | Some k \<Rightarrow> if k = [] then [] else [(''Authorization'', ''Bearer '' @ k)])"

definition hexDigit :: "nat \<Rightarrow> char" where
  "hexDigit n = ''0123456789ABCDEF'' ! (n mod 16)"

definition percent :: "nat \<Rightarrow> string" where
  "percent b = [CHR ''%'', hexDigit (b div 16), hexDigit b]"

definition unreserved :: "char \<Rightarrow> bool" where
  "unreserved c =
     (let n = (of_char c :: nat)
      in (65 \<le> n \<and> n \<le> 90) \<or> (97 \<le> n \<and> n \<le> 122) \<or> (48 \<le> n \<and> n \<le> 57)
         \<or> c \<in> set ''-_.!~*'()'')"

definition encodeURIComponent :: "string \<Rightarrow> string" where
  \<comment> \<open>a code unit from 128 to 255 is two bytes in UTF-8\<close>
  "encodeURIComponent s =
     concat (map (\<lambda>c. let n = (of_char c :: nat)
                       in if unreserved c then [c]
                          else if n < 128 then percent n
                          else percent (192 + n div 64) @ percent (128 + n mod 64)) s)"

section \<open>Joining and leaving the waitlist (the useWaitlist hook)\<close>

record WaitlistState =
  email :: string
  isJoining :: bool
  isLeaving :: bool
  isJoined :: bool
  error :: "string option"
  successMessage :: "string option"

text \<open>
  The callbacks of the options are optional; a flag says that the caller supplied one. What a
  call of the hook does to the outside is the list of its effects, in order: a request handed
  to \<open>fetch\<close>, or a callback called with its argument. A callback is taken to return
  normally.
\<close>

record UseWaitlistOptions =
  variant :: VariantInfo
  onJoinSuccess :: bool
  onJoinError :: bool
  onLeaveSuccess :: bool
  onLeaveError :: bool

datatype effect =
    Fetch HttpRequest
  | JoinSuccess JoinWaitlistResponse
  | JoinError string
  | LeaveSuccess LeaveWaitlistResponse
  | LeaveError string

definition optionalCall :: "bool \<Rightarrow> effect \<Rightarrow> effect list" where
  \<comment> \<open>\<open>callback?.(argument)\<close>\<close>
  "optionalCall supplied e = (if supplied then [e] else [])"

record 'r Settled =
  state :: WaitlistState
  effects :: "effect list"
  result :: 'r

definition initialState :: WaitlistState where
  "initialState =
     \<lparr>email = [], isJoining = False, isLeaving = False, isJoined = False,
      error = None, successMessage = None\<rparr>"

definition joinFailure :: "string \<Rightarrow> JoinWaitlistResponse" where
  \<comment> \<open>\<open>{ success: false, error: errorMsg }\<close>\<close>
  "joinFailure errorMsg =
     \<lparr>JoinWaitlistResponse.success = False, entryId = None,
      JoinWaitlistResponse.message = None, JoinWaitlistResponse.error = Some errorMsg\<rparr>"

definition leaveFailure :: "string \<Rightarrow> LeaveWaitlistResponse" where
  "leaveFailure errorMsg =
     \<lparr>LeaveWaitlistResponse.success = False, LeaveWaitlistResponse.message = None,
      LeaveWaitlistResponse.error = Some errorMsg\<rparr>"

definition joinRequest :: "RestockBridgeConfig \<Rightarrow> UseWaitlistOptions \<Rightarrow> string \<Rightarrow> HttpRequest" where
  "joinRequest config options cleanEmail =
     (let v = UseWaitlistOptions.variant options
      in \<lparr>httpMethod = ''POST'',
          url = apiUrl config @ joinPath API_ENDPOINTS,
          headers = (''Content-Type'', ''application/json'') # authorization config,
          body = Some ([(''email'', cleanEmail), (''variantId'', id' v),
                        (''productId'', productId v), (''productTitle'', productTitle v)]
                       @ (case variantTitle v of Some t \<Rightarrow> [(''variantTitle'', t)] | None \<Rightarrow> [])
                       @ [(''shop'', shopDomain config)])\<rparr>)"

definition leaveRequest :: "RestockBridgeConfig \<Rightarrow> UseWaitlistOptions \<Rightarrow> string \<Rightarrow> HttpRequest" where
  "leaveRequest config options cleanEmail =
     \<lparr>httpMethod = ''POST'',
      url = apiUrl config @ leavePath API_ENDPOINTS,
      headers = (''Content-Type'', ''application/json'') # authorization config,
      body = Some [(''email'', cleanEmail),
                   (''variantId'', id' (UseWaitlistOptions.variant options)),
                   (''shop'', shopDomain config)]\<rparr>"

text \<open>
  An asynchronous function runs in two parts: up to its \<open>await fetch\<close>, where it either has
  returned already or has handed over a request, and from the answer of the network to its
  return. Other calls on the same instance may run between the two.
\<close>

definition joinBegin ::
  "RestockBridgeConfig \<Rightarrow> UseWaitlistOptions \<Rightarrow> string \<Rightarrow> WaitlistState
     \<Rightarrow> JoinWaitlistResponse Settled + WaitlistState \<times> HttpRequest" where
  "joinBegin config options emailInput s =
     (let cleanEmail = toLowerCase (sanitizeInput emailInput)
      in if \<not> isValidEmail cleanEmail then
           (let errorMsg = invalidEmail DEFAULT_ERROR_MESSAGES
            in Inl \<lparr>state = s\<lparr>error := Some errorMsg\<rparr>,
                    effects = optionalCall (onJoinError options) (JoinError errorMsg),
                    result = joinFailure errorMsg\<rparr>)
         else Inr (s\<lparr>isJoining := True, error := None, successMessage := None\<rparr>,
                   joinRequest config options cleanEmail))"

definition joinCatch :: "UseWaitlistOptions \<Rightarrow> WaitlistState \<Rightarrow> JoinWaitlistResponse Settled" where
  "joinCatch options s =
     (let errorMsg = network DEFAULT_ERROR_MESSAGES
      in \<lparr>state = s\<lparr>error := Some errorMsg\<rparr>,
          effects = optionalCall (onJoinError options) (JoinError errorMsg),
          result = joinFailure errorMsg\<rparr>)"

definition joinTry ::
  "UseWaitlistOptions \<Rightarrow> JoinWaitlistResponse fetched \<Rightarrow> WaitlistState
     \<Rightarrow> JoinWaitlistResponse Settled" where
  "joinTry options answer s =
     (case answer of
        Rejected e \<Rightarrow> joinCatch options s
      | Resolved res \<Rightarrow>
          if status res = 429 then
            (let errorMsg = rateLimited DEFAULT_ERROR_MESSAGES
             in \<lparr>state = s\<lparr>error := Some errorMsg\<rparr>,
                 effects = optionalCall (onJoinError options) (JoinError errorMsg),
                 result = joinFailure errorMsg\<rparr>)
          else
            (case json res of
               Inl e \<Rightarrow> joinCatch options s
             | Inr r \<Rightarrow>
                 if \<not> ok res \<or> \<not> JoinWaitlistResponse.success r then
                   (let errorMsg = (case JoinWaitlistResponse.error r of
                                      Some e \<Rightarrow> e | None \<Rightarrow> unknown DEFAULT_ERROR_MESSAGES)
                    in \<lparr>state = s\<lparr>error := Some errorMsg\<rparr>,
                        effects = optionalCall (onJoinError options) (JoinError errorMsg),
                        result = r\<rparr>)
                 else
                   \<lparr>state = s\<lparr>isJoined := True,
                              successMessage :=
                                Some (case JoinWaitlistResponse.message r of
                                        Some m \<Rightarrow> m | None \<Rightarrow> joined DEFAULT_SUCCESS_MESSAGES)\<rparr>,
                    effects = optionalCall (onJoinSuccess options) (JoinSuccess r),
                    result = r\<rparr>))"

definition joinSettle ::
  "UseWaitlistOptions \<Rightarrow> JoinWaitlistResponse fetched \<Rightarrow> WaitlistState
     \<Rightarrow> JoinWaitlistResponse Settled" where
  \<comment> \<open>the \<open>try\<close> with its \<open>catch\<close>, then the \<open>finally\<close>\<close>
  "joinSettle options answer s =
     (let r = joinTry options answer s in r\<lparr>state := (state r)\<lparr>isJoining := False\<rparr>\<rparr>)"

definition join ::
  "RestockBridgeConfig \<Rightarrow> UseWaitlistOptions \<Rightarrow> string \<Rightarrow> JoinWaitlistResponse fetched
     \<Rightarrow> WaitlistState \<Rightarrow> JoinWaitlistResponse Settled" where
  \<comment> \<open>a call that nothing interrupts: \<open>answer\<close> is what the network gives if it is asked\<close>
  "join config options emailInput answer s =
     (case joinBegin config options emailInput s of
        Inl r \<Rightarrow> r
      | Inr (s', request) \<Rightarrow>
          (let r = joinSettle options answer s' in r\<lparr>effects := Fetch request # effects r\<rparr>))"

definition leaveBegin ::
  "RestockBridgeConfig \<Rightarrow> UseWaitlistOptions \<Rightarrow> string \<Rightarrow> WaitlistState
     \<Rightarrow> LeaveWaitlistResponse Settled + WaitlistState \<times> HttpRequest" where
  "leaveBegin config options emailInput s =
     (let cleanEmail = toLowerCase (sanitizeInput emailInput)
      in if \<not> isValidEmail cleanEmail then
           (let errorMsg = invalidEmail DEFAULT_ERROR_MESSAGES
            in Inl \<lparr>state = s\<lparr>error := Some errorMsg\<rparr>,
                    effects = optionalCall (onLeaveError options) (LeaveError errorMsg),
                    result = leaveFailure errorMsg\<rparr>)
         else Inr (s\<lparr>isLeaving := True, error := None, successMessage := None\<rparr>,
                   leaveRequest config options cleanEmail))"

definition leaveCatch :: "UseWaitlistOptions \<Rightarrow> WaitlistState \<Rightarrow> LeaveWaitlistResponse Settled" where
  "leaveCatch options s =
     (let errorMsg = network DEFAULT_ERROR_MESSAGES
      in \<lparr>state = s\<lparr>error := Some errorMsg\<rparr>,
          effects = optionalCall (onLeaveError options) (LeaveError errorMsg),
          result = leaveFailure errorMsg\<rparr>)"

definition leaveTry ::
  "UseWaitlistOptions \<Rightarrow> LeaveWaitlistResponse fetched \<Rightarrow> WaitlistState
     \<Rightarrow> LeaveWaitlistResponse Settled" where
  "leaveTry options answer s =
     (case answer of
        Rejected e \<Rightarrow> leaveCatch options s
      | Resolved res \<Rightarrow>
          if status res = 429 then
            (let errorMsg = rateLimited DEFAULT_ERROR_MESSAGES
             in \<lparr>state = s\<lparr>error := Some errorMsg\<rparr>,
                 effects = optionalCall (onLeaveError options) (LeaveError errorMsg),
                 result = leaveFailure errorMsg\<rparr>)
          else
            (case json res of
               Inl e \<Rightarrow> leaveCatch options s
             | Inr r \<Rightarrow>
                 if \<not> ok res \<or> \<not> LeaveWaitlistResponse.success r then
                   (let errorMsg = (case LeaveWaitlistResponse.error r of
                                      Some e \<Rightarrow> e | None \<Rightarrow> unknown DEFAULT_ERROR_MESSAGES)
                    in \<lparr>state = s\<lparr>error := Some errorMsg\<rparr>,
                        effects = optionalCall (onLeaveError options) (LeaveError errorMsg),
                        result = r\<rparr>)
                 else
                   \<lparr>state = s\<lparr>isJoined := False,
                              successMessage :=
                                Some (case LeaveWaitlistResponse.message r of
                                        Some m \<Rightarrow> m | None \<Rightarrow> left DEFAULT_SUCCESS_MESSAGES)\<rparr>,
                    effects = optionalCall (onLeaveSuccess options) (LeaveSuccess r),
                    result = r\<rparr>))"

definition leaveSettle ::
  "UseWaitlistOptions \<Rightarrow> LeaveWaitlistResponse fetched \<Rightarrow> WaitlistState
     \<Rightarrow> LeaveWaitlistResponse Settled" where
  "leaveSettle options answer s =
     (let r = leaveTry options answer s in r\<lparr>state := (state r)\<lparr>isLeaving := False\<rparr>\<rparr>)"

definition leave ::
  "RestockBridgeConfig \<Rightarrow> UseWaitlistOptions \<Rightarrow> string \<Rightarrow> LeaveWaitlistResponse fetched
     \<Rightarrow> WaitlistState \<Rightarrow> LeaveWaitlistResponse Settled" where
  "leave config options emailInput answer s =
     (case leaveBegin config options emailInput s of
        Inl r \<Rightarrow> r
      | Inr (s', request) \<Rightarrow>
          (let r = leaveSettle options answer s' in r\<lparr>effects := Fetch request # effects r\<rparr>))"

definition reset :: "WaitlistState \<Rightarrow> WaitlistState" where
  "reset s =
     s\<lparr>email := [], isJoining := False, isLeaving := False, isJoined := False,
       error := None, successMessage := None\<rparr>"

subsection \<open>One instance of the hook over time\<close>

text \<open>
  The operations on one instance, in the order in which their parts run: a call of \<open>join\<close>
  or \<open>leave\<close> runs up to its request, the answer to a request in flight runs the rest of
  that call, and \<open>reset\<close> runs at once. An answer can only come for a request in flight.
\<close>

datatype event =
    CallJoin string
  | AnswerJoin "JoinWaitlistResponse fetched"
  | CallLeave string
  | AnswerLeave "LeaveWaitlistResponse fetched"
  | CallReset

record Instance =
  hook :: WaitlistState
  joinsInFlight :: nat
  leavesInFlight :: nat

definition initialInstance :: Instance where
  "initialInstance = \<lparr>hook = initialState, joinsInFlight = 0, leavesInFlight = 0\<rparr>"

fun step :: "RestockBridgeConfig \<Rightarrow> UseWaitlistOptions \<Rightarrow> event \<Rightarrow> Instance \<Rightarrow> Instance option" where
  "step config options (CallJoin emailInput) i =
     (case joinBegin config options emailInput (hook i) of
        Inl r \<Rightarrow> Some (i\<lparr>hook := state r\<rparr>)
      | Inr (s', request) \<Rightarrow> Some (i\<lparr>hook := s', joinsInFlight := Suc (joinsInFlight i)\<rparr>))"
| "step config options (AnswerJoin answer) i =
     (if joinsInFlight i = 0 then None
      else Some (i\<lparr>hook := state (joinSettle options answer (hook i)),
                   joinsInFlight := joinsInFlight i - 1\<rparr>))"
| "step config options (CallLeave emailInput) i =
     (case leaveBegin config options emailInput (hook i) of
        Inl r \<Rightarrow> Some (i\<lparr>hook := state r\<rparr>)
      | Inr (s', request) \<Rightarrow> Some (i\<lparr>hook := s', leavesInFlight := Suc (leavesInFlight i)\<rparr>))"
| "step config options (AnswerLeave answer) i =
     (if leavesInFlight i = 0 then None
      else Some (i\<lparr>hook := state (leaveSettle options answer (hook i)),
                   leavesInFlight := leavesInFlight i - 1\<rparr>))"
| "step config options CallReset i = Some (i\<lparr>hook := reset (hook i)\<rparr>)"

fun run :: "RestockBridgeConfig \<Rightarrow> UseWaitlistOptions \<Rightarrow> event list \<Rightarrow> Instance \<Rightarrow> Instance option" where
  "run config options [] i = Some i"
| "run config options (e # es) i =
     (case step config options e i of None \<Rightarrow> None | Some i' \<Rightarrow> run config options es i')"

fun isCall :: "event \<Rightarrow> bool" where
  "isCall (CallJoin emailInput) = True"
| "isCall (CallLeave emailInput) = True"
| "isCall e = False"

fun runOneAtATime ::
  "RestockBridgeConfig \<Rightarrow> UseWaitlistOptions \<Rightarrow> event list \<Rightarrow> Instance \<Rightarrow> Instance option" where
  \<comment> \<open>as \<open>run\<close>, for a caller that starts no \<open>join\<close> or \<open>leave\<close> while a request is in flight\<close>
  "runOneAtATime config options [] i = Some i"
| "runOneAtATime config options (e # es) i =
     (if isCall e \<and> 0 < joinsInFlight i + leavesInFlight i then None
      else case step config options e i of
             None \<Rightarrow> None
           | Some i' \<Rightarrow> runOneAtATime config options es i')"

definition joinSucceeded :: "JoinWaitlistResponse fetched \<Rightarrow> bool" where
  \<comment> \<open>an answer with a status from 200 to 299 whose body parses and says \<open>success: true\<close>\<close>
  "joinSucceeded answer =
     (case answer of
        Rejected e \<Rightarrow> False
      | Resolved res \<Rightarrow>
          ok res \<and> (case json res of Inl e \<Rightarrow> False | Inr r \<Rightarrow> JoinWaitlistResponse.success r))"

definition leaveSucceeded :: "LeaveWaitlistResponse fetched \<Rightarrow> bool" where
  "leaveSucceeded answer =
     (case answer of
        Rejected e \<Rightarrow> False
      | Resolved res \<Rightarrow>
          ok res \<and> (case json res of Inl e \<Rightarrow> False | Inr r \<Rightarrow> LeaveWaitlistResponse.success r))"

section \<open>The waitlist count and its cache (the useWaitlistCount hook)\<close>

record UseWaitlistCountOptions =
  variantId :: string
  autoFetch :: "bool option"
  cacheDuration :: "int option"

record CacheEntry =
  count :: int
  timestamp :: int

record CountState =
  count :: int
  isLoading :: bool
  error :: "string option"

text \<open>
  The cache is one map for the whole program, so it is a part of the world next to the state
  of the hook; \<open>requests\<close> lists what was handed to \<open>fetch\<close>, oldest first. The clock
  (\<open>Date.now()\<close>) is an input, read once before the request and once after the answer.
\<close>

record CountWorld =
  view :: CountState
  countCache :: "string \<rightharpoonup> CacheEntry"
  requests :: "HttpRequest list"

definition cacheDurationOf :: "UseWaitlistCountOptions \<Rightarrow> int" where
  "cacheDurationOf options = (case cacheDuration options of Some d \<Rightarrow> d | None \<Rightarrow> 60000)"

definition cacheKey :: "RestockBridgeConfig \<Rightarrow> UseWaitlistCountOptions \<Rightarrow> string" where
  "cacheKey config options =
     shopDomain config @ '':'' @ extractNumericId (UseWaitlistCountOptions.variantId options)"

definition countRequest :: "RestockBridgeConfig \<Rightarrow> UseWaitlistCountOptions \<Rightarrow> HttpRequest" where
  "countRequest config options =
     \<lparr>httpMethod = ''GET'',
      url = apiUrl config @ countPath API_ENDPOINTS @ ''/''
            @ extractNumericId (UseWaitlistCountOptions.variantId options)
            @ ''?shop='' @ encodeURIComponent (shopDomain config),
      headers = authorization config,
      body = None\<rparr>"

definition fetchCountBegin ::
  "RestockBridgeConfig \<Rightarrow> UseWaitlistCountOptions \<Rightarrow> int \<Rightarrow> CountWorld \<Rightarrow> CountWorld + CountWorld" where
  \<comment> \<open>\<open>Inl\<close>: returned from the cache; \<open>Inr\<close>: waiting for the network\<close>
  "fetchCountBegin config options now w =
     (case countCache w (cacheKey config options) of
        Some cached \<Rightarrow>
          if now - timestamp cached < cacheDurationOf options
          then Inl (w\<lparr>view := (view w)\<lparr>CountState.count := CacheEntry.count cached\<rparr>\<rparr>)
          else Inr (w\<lparr>view := (view w)\<lparr>isLoading := True, CountState.error := None\<rparr>,
                      requests := requests w @ [countRequest config options]\<rparr>)
      | None \<Rightarrow>
          Inr (w\<lparr>view := (view w)\<lparr>isLoading := True, CountState.error := None\<rparr>,
                 requests := requests w @ [countRequest config options]\<rparr>))"

definition fetchCountCatch :: "thrown \<Rightarrow> CountWorld \<Rightarrow> CountWorld" where
  "fetchCountCatch err w =
     (let errorMsg = (case err of Error m \<Rightarrow> m | NonError \<Rightarrow> ''Failed to fetch count'')
      in w\<lparr>view := (view w)\<lparr>CountState.error := Some errorMsg, CountState.count := 0\<rparr>\<rparr>)"

definition fetchCountTry ::
  "RestockBridgeConfig \<Rightarrow> UseWaitlistCountOptions \<Rightarrow> WaitlistCountResponse fetched \<Rightarrow> int
     \<Rightarrow> CountWorld \<Rightarrow> CountWorld" where
  "fetchCountTry config options answer now w =
     (case answer of
        Rejected e \<Rightarrow> fetchCountCatch e w
      | Resolved res \<Rightarrow>
          if \<not> ok res then
            (if status res = 404 then
               w\<lparr>view := (view w)\<lparr>CountState.count := 0\<rparr>,
                 countCache := (countCache w)(cacheKey config options \<mapsto>
                                 \<lparr>CacheEntry.count = 0, timestamp = now\<rparr>)\<rparr>
             else fetchCountCatch (Error ''Failed to fetch waitlist count'') w)
          else
            (case json res of
               Inl e \<Rightarrow> fetchCountCatch e w
             | Inr r \<Rightarrow>
                 w\<lparr>view := (view w)\<lparr>CountState.count := WaitlistCountResponse.count r\<rparr>,
                   countCache := (countCache w)(cacheKey config options \<mapsto>
                                   \<lparr>CacheEntry.count = WaitlistCountResponse.count r,
                                    timestamp = now\<rparr>)\<rparr>))"

definition fetchCountSettle ::
  "RestockBridgeConfig \<Rightarrow> UseWaitlistCountOptions \<Rightarrow> WaitlistCountResponse fetched \<Rightarrow> int
     \<Rightarrow> CountWorld \<Rightarrow> CountWorld" where
  "fetchCountSettle config options answer now w =
     (let w' = fetchCountTry config options answer now w
      in w'\<lparr>view := (view w')\<lparr>isLoading := False\<rparr>\<rparr>)"

definition fetchCount ::
  "RestockBridgeConfig \<Rightarrow> UseWaitlistCountOptions \<Rightarrow> int \<Rightarrow> WaitlistCountResponse fetched \<Rightarrow> int
     \<Rightarrow> CountWorld \<Rightarrow> CountWorld" where
  \<comment> \<open>a call that nothing interrupts: the clock reads \<open>now\<close> at the start and \<open>later\<close> when the
      answer is there\<close>
  "fetchCount config options now answer later w =
     (case fetchCountBegin config options now w of
        Inl w' \<Rightarrow> w'
      | Inr w' \<Rightarrow> fetchCountSettle config options answer later w')"

definition refetch ::
  "RestockBridgeConfig \<Rightarrow> UseWaitlistCountOptions \<Rightarrow> int \<Rightarrow> WaitlistCountResponse fetched \<Rightarrow> int
     \<Rightarrow> CountWorld \<Rightarrow> CountWorld" where
  "refetch config options now answer later w =
     fetchCount config options now answer later
       (w\<lparr>countCache := (countCache w)(cacheKey config options := None)\<rparr>)"

definition initialCountState :: CountState where
  "initialCountState = \<lparr>CountState.count = 0, isLoading = False, CountState.error = None\<rparr>"

section \<open>Concrete inputs\<close>

definition sampleConfig :: RestockBridgeConfig where
  "sampleConfig =
     \<lparr>apiUrl = ''https://api.example'', shopDomain = ''shop.example'', apiKey = Some ''k''\<rparr>"

definition sampleVariant :: VariantInfo where
  "sampleVariant =
     \<lparr>id' = ''gid://shopify/ProductVariant/42'', productId = ''gid://shopify/Product/7'',
      productTitle = ''Mug'', variantTitle = None, availableForSale = True,
      VariantInfo.quantityAvailable = Some 0\<rparr>"

definition sampleOptions :: UseWaitlistOptions where
  "sampleOptions =
     \<lparr>UseWaitlistOptions.variant = sampleVariant, onJoinSuccess = True, onJoinError = True,
      onLeaveSuccess = True, onLeaveError = True\<rparr>"

definition joinedOk :: JoinWaitlistResponse where
  \<comment> \<open>\<open>{ success: true, message: "ok" }\<close>\<close>
  "joinedOk =
     \<lparr>JoinWaitlistResponse.success = True, entryId = None,
      JoinWaitlistResponse.message = Some ''ok'', JoinWaitlistResponse.error = None\<rparr>"

definition refusedBare :: JoinWaitlistResponse where
  \<comment> \<open>\<open>{ success: false }\<close>\<close>
  "refusedBare =
     \<lparr>JoinWaitlistResponse.success = False, entryId = None,
      JoinWaitlistResponse.message = None, JoinWaitlistResponse.error = None\<rparr>"

definition sampleCountOptions :: UseWaitlistCountOptions where
  "sampleCountOptions =
     \<lparr>UseWaitlistCountOptions.variantId = ''gid://shopify/ProductVariant/42'',
      autoFetch = None, cacheDuration = None\<rparr>"

definition emptyWorld :: CountWorld where
  "emptyWorld = \<lparr>view = initialCountState, countCache = Map.empty, requests = []\<rparr>"

definition sevenWaiting :: WaitlistCountResponse where
  "sevenWaiting = \<lparr>WaitlistCountResponse.variantId = ''42'', WaitlistCountResponse.count = 7\<rparr>"

definition awaitingJoin :: Instance where
  "awaitingJoin =
     \<lparr>hook = initialState\<lparr>isJoining := True\<rparr>, joinsInFlight = 1, leavesInFlight = 0\<rparr>"

definition joinedIdle :: Instance where
  "joinedIdle =
     \<lparr>hook = initialState\<lparr>isJoined := True, successMessage := Some ''ok''\<rparr>,
      joinsInFlight = 0, leavesInFlight = 0\<rparr>"

definition warmWorld :: CountWorld where
  "warmWorld =
     emptyWorld\<lparr>countCache :=
       [cacheKey sampleConfig sampleCountOptions \<mapsto> \<lparr>CacheEntry.count = 7, timestamp = 1200\<rparr>]\<rparr>"

section \<open>The availability classifier\<close>

text \<open>
  C8. For every variant and threshold (5 when none is given): the status is \<open>out_of_stock\<close>
  when the variant is not available for sale, \<open>preorder\<close> when it is available for sale with
  a quantity of exactly 0, and \<open>available\<close> otherwise; \<open>isLowStock\<close> holds exactly when the
  variant is available for sale and its quantity is defined, above 0 and at most the
  threshold; \<open>showNotifyMe\<close> equals \<open>isOutOfStock\<close>, so a preorder never shows notify-me.
  For an absent variant the status is \<open>out_of_stock\<close> and \<open>showNotifyMe\<close> is false.
\<close>

theorem classifier_status_lowstock_notify:
  "(let absent = useVariantAvailability
                   \<lparr>UseVariantAvailabilityOptions.variant = None, lowStockThreshold = t\<rparr>;
        r = useVariantAvailability
              \<lparr>UseVariantAvailabilityOptions.variant = Some v, lowStockThreshold = t\<rparr>;
        threshold = (case t of Some n \<Rightarrow> n | None \<Rightarrow> 5)
    in UseVariantAvailabilityReturn.status absent = out_of_stock \<and> \<not> showNotifyMe absent
       \<and> UseVariantAvailabilityReturn.status r =
           (if \<not> availableForSale v then out_of_stock
            else if VariantInfo.quantityAvailable v = Some 0 then preorder
            else available)
       \<and> isLowStock r =
           (availableForSale v
            \<and> (\<exists>q. VariantInfo.quantityAvailable v = Some q \<and> 0 < q \<and> q \<le> threshold))
       \<and> isOutOfStock r = (\<not> availableForSale v)
       \<and> showNotifyMe r = isOutOfStock r
       \<and> (UseVariantAvailabilityReturn.status r = preorder \<longrightarrow> \<not> showNotifyMe r))"
  by (auto simp: useVariantAvailability_def Let_def split: option.splits)

theorem classifier_preorder_witness:
  "UseVariantAvailabilityReturn.status
     (useVariantAvailability
        \<lparr>UseVariantAvailabilityOptions.variant = Some sampleVariant,
         lowStockThreshold = Some 3\<rparr>) = preorder
   \<and> \<not> showNotifyMe
         (useVariantAvailability
            \<lparr>UseVariantAvailabilityOptions.variant = Some sampleVariant,
             lowStockThreshold = Some 3\<rparr>)"
  using classifier_status_lowstock_notify [of "Some 3" sampleVariant]
  by (simp add: sampleVariant_def Let_def)

section \<open>Joining and leaving\<close>

lemmas join_defs = join_def joinBegin_def joinSettle_def joinTry_def joinCatch_def joinFailure_def

lemmas leave_defs = leave_def leaveBegin_def leaveSettle_def leaveTry_def leaveCatch_def
  leaveFailure_def

lemma sample_email_valid: "isValidEmail (toLowerCase (sanitizeInput '' Ann@Shop.example ''))"
  by code_simp

lemma sample_email_clean: "toLowerCase (sanitizeInput '' Ann@Shop.example '') = ''ann@shop.example''"
  by code_simp

lemma sample_email_invalid: "\<not> isValidEmail (toLowerCase (sanitizeInput ''Someone@Nowhere''))"
  by code_simp

text \<open>
  C3. For every input whose sanitized, lower-cased form fails \<open>isValidEmail\<close>, \<open>join\<close>
  returns before its request: it sets \<open>error\<close> to the invalid-email message, calls the
  join-error callback (when one is supplied) with that message, returns
  \<open>{success: false, error}\<close> with it, and hands no request to \<open>fetch\<close>.
\<close>

theorem join_invalid_email_no_request:
  assumes "\<not> isValidEmail (toLowerCase (sanitizeInput emailInput))"
  shows "joinBegin config options emailInput s =
           Inl (join config options emailInput answer s)
       \<and> WaitlistState.error (state (join config options emailInput answer s)) =
           Some (invalidEmail DEFAULT_ERROR_MESSAGES)
       \<and> effects (join config options emailInput answer s) =
           (if onJoinError options then [JoinError (invalidEmail DEFAULT_ERROR_MESSAGES)] else [])
       \<and> result (join config options emailInput answer s) =
           \<lparr>JoinWaitlistResponse.success = False, entryId = None,
            JoinWaitlistResponse.message = None,
            JoinWaitlistResponse.error = Some (invalidEmail DEFAULT_ERROR_MESSAGES)\<rparr>
       \<and> (\<forall>request. Fetch request \<notin> set (effects (join config options emailInput answer s)))"
  using assms by (simp add: join_defs optionalCall_def Let_def)

theorem join_invalid_email_witness:
  "\<not> isValidEmail (toLowerCase (sanitizeInput ''Someone@Nowhere''))
   \<and> effects (join sampleConfig sampleOptions ''Someone@Nowhere''
                (Resolved (Response 200 (Inr joinedOk))) initialState) =
       [JoinError ''Please enter a valid email address.'']
   \<and> result (join sampleConfig sampleOptions ''Someone@Nowhere''
                (Resolved (Response 200 (Inr joinedOk))) initialState) =
       \<lparr>JoinWaitlistResponse.success = False, entryId = None,
        JoinWaitlistResponse.message = None,
        JoinWaitlistResponse.error = Some ''Please enter a valid email address.''\<rparr>"
  using join_invalid_email_no_request [OF sample_email_invalid, of sampleConfig sampleOptions
      initialState "Resolved (Response 200 (Inr joinedOk))"] sample_email_invalid
  by (simp add: sampleOptions_def DEFAULT_ERROR_MESSAGES_def)

text \<open>
  C9. When \<open>join\<close> or \<open>leave\<close> fails the validation of the email, \<open>error\<close> is the only
  field of the state that changes: the in-flight flags are not set, and \<open>successMessage\<close>
  and \<open>isJoined\<close> keep what an earlier call left. So after a successful \<open>join\<close>, an attempt
  with an invalid email leaves a state that carries a success message and an error at once.
\<close>

theorem invalid_email_changes_only_error:
  assumes "\<not> isValidEmail (toLowerCase (sanitizeInput bad))"
  shows "state (join config options bad answer s) =
           s\<lparr>WaitlistState.error := Some (invalidEmail DEFAULT_ERROR_MESSAGES)\<rparr>
       \<and> state (leave config options bad answer' s) =
           s\<lparr>WaitlistState.error := Some (invalidEmail DEFAULT_ERROR_MESSAGES)\<rparr>
       \<and> (isValidEmail (toLowerCase (sanitizeInput good)) \<and> joinSucceeded first
          \<longrightarrow> (let s1 = state (join config options good first s0);
                   s2 = state (join config options bad answer s1);
                   s3 = state (leave config options bad answer' s1)
               in isJoined s1 \<and> successMessage s1 \<noteq> None
                  \<and> isJoined s2 \<and> successMessage s2 = successMessage s1
                  \<and> WaitlistState.error s2 = Some (invalidEmail DEFAULT_ERROR_MESSAGES)
                  \<and> isJoined s3 \<and> successMessage s3 = successMessage s1
                  \<and> WaitlistState.error s3 = Some (invalidEmail DEFAULT_ERROR_MESSAGES)))"
  using assms
  by (auto simp: join_defs leave_defs optionalCall_def Let_def joinSucceeded_def ok_def
      split: fetched.splits sum.splits)

theorem invalid_email_after_join_witness:
  "\<not> isValidEmail (toLowerCase (sanitizeInput ''Someone@Nowhere''))
   \<and> isValidEmail (toLowerCase (sanitizeInput '' Ann@Shop.example ''))
   \<and> joinSucceeded (Resolved (Response 200 (Inr joinedOk)))
   \<and> state (join sampleConfig sampleOptions ''Someone@Nowhere'' (Rejected NonError)
        (state (join sampleConfig sampleOptions '' Ann@Shop.example ''
                  (Resolved (Response 200 (Inr joinedOk))) initialState))) =
       \<lparr>email = [], isJoining = False, isLeaving = False, isJoined = True,
        WaitlistState.error = Some ''Please enter a valid email address.'',
        successMessage = Some ''ok''\<rparr>"
proof -
  have ok: "joinSucceeded (Resolved (Response 200 (Inr joinedOk)))"
    by (simp add: joinSucceeded_def ok_def joinedOk_def)
  have first: "state (join sampleConfig sampleOptions '' Ann@Shop.example ''
                  (Resolved (Response 200 (Inr joinedOk))) initialState) =
       \<lparr>email = [], isJoining = False, isLeaving = False, isJoined = True,
        WaitlistState.error = None, successMessage = Some ''ok''\<rparr>"
    using sample_email_valid
    by (simp add: join_defs optionalCall_def Let_def ok_def joinedOk_def initialState_def)
  from invalid_email_changes_only_error [OF sample_email_invalid, of sampleConfig sampleOptions
      "Rejected NonError"
      "state (join sampleConfig sampleOptions '' Ann@Shop.example ''
                  (Resolved (Response 200 (Inr joinedOk))) initialState)"]
  show ?thesis using sample_email_invalid sample_email_valid ok
    by (simp add: first DEFAULT_ERROR_MESSAGES_def)
qed

text \<open>
  C6. For every answer with status 429 to the request of a \<open>join\<close> or a \<open>leave\<close>, whatever
  its body: the call sets \<open>error\<close> to the rate-limited message, calls the error callback of
  the operation (when one is supplied) with it, returns \<open>{success: false, error}\<close>, and
  leaves \<open>isJoined\<close> as it was, so that it remains false where it was false.
\<close>

theorem rate_limited_429:
  assumes "isValidEmail (toLowerCase (sanitizeInput emailInput))"
    and "status res = 429" and "status res' = 429"
  shows "(let out = join config options emailInput (Resolved res) s;
              msg = rateLimited DEFAULT_ERROR_MESSAGES
          in WaitlistState.error (state out) = Some msg
             \<and> effects out =
                 Fetch (joinRequest config options (toLowerCase (sanitizeInput emailInput)))
                 # (if onJoinError options then [JoinError msg] else [])
             \<and> result out =
                 \<lparr>JoinWaitlistResponse.success = False, entryId = None,
                  JoinWaitlistResponse.message = None, JoinWaitlistResponse.error = Some msg\<rparr>
             \<and> isJoined (state out) = isJoined s
             \<and> (\<not> isJoined s \<longrightarrow> \<not> isJoined (state out)))
       \<and> (let out = leave config options emailInput (Resolved res') s;
              msg = rateLimited DEFAULT_ERROR_MESSAGES
          in WaitlistState.error (state out) = Some msg
             \<and> effects out =
                 Fetch (leaveRequest config options (toLowerCase (sanitizeInput emailInput)))
                 # (if onLeaveError options then [LeaveError msg] else [])
             \<and> result out =
                 \<lparr>LeaveWaitlistResponse.success = False, LeaveWaitlistResponse.message = None,
                  LeaveWaitlistResponse.error = Some msg\<rparr>
             \<and> isJoined (state out) = isJoined s
             \<and> (\<not> isJoined s \<longrightarrow> \<not> isJoined (state out)))"
  using assms by (simp add: join_defs leave_defs optionalCall_def Let_def)

theorem rate_limited_429_witness:
  "isValidEmail (toLowerCase (sanitizeInput '' Ann@Shop.example ''))
   \<and> WaitlistState.error
        (state (join sampleConfig sampleOptions '' Ann@Shop.example ''
                  (Resolved (Response 429 (Inr joinedOk))) initialState)) =
       Some ''Too many requests. Please try again later.''
   \<and> \<not> isJoined
        (state (join sampleConfig sampleOptions '' Ann@Shop.example ''
                  (Resolved (Response 429 (Inr joinedOk))) initialState))
   \<and> effects (leave sampleConfig sampleOptions '' Ann@Shop.example ''
                 (Resolved (Response 429 (Inl NonError))) initialState) =
       [Fetch (leaveRequest sampleConfig sampleOptions ''ann@shop.example''),
        LeaveError ''Too many requests. Please try again later.'']"
  using rate_limited_429 [OF sample_email_valid, of "Response 429 (Inr joinedOk)"
      "Response 429 (Inl NonError)" sampleConfig sampleOptions initialState]
    sample_email_valid
  by (simp add: Let_def sample_email_clean sampleOptions_def DEFAULT_ERROR_MESSAGES_def
      initialState_def)

text \<open>
  C7, as the code has it. For every valid email, when the backend answers with a status from
  200 to 299 and the body \<open>{success: true, message: "ok"}\<close>, \<open>join\<close> ends with \<open>isJoined\<close>
  true, \<open>isJoining\<close> false and \<open>successMessage\<close> \<open>"ok"\<close>. And \<open>isJoining\<close> is false after
  a \<open>join\<close> on every path that made a request (success, HTTP failure, network failure),
  whatever the state before; a failed validation returns before the \<open>try\<close> and leaves
  \<open>isJoining\<close> as the call found it.
\<close>

theorem join_success_and_isJoining_cleared:
  "(isValidEmail (toLowerCase (sanitizeInput emailInput)) \<and> ok res \<and> json res = Inr r
      \<and> JoinWaitlistResponse.success r \<and> JoinWaitlistResponse.message r = Some ''ok''
    \<longrightarrow> (let s' = state (join config options emailInput (Resolved res) s)
         in isJoined s' \<and> \<not> isJoining s' \<and> successMessage s' = Some ''ok''))
   \<and> (isValidEmail (toLowerCase (sanitizeInput emailInput))
    \<longrightarrow> \<not> isJoining (state (join config options emailInput answer s)))
   \<and> (\<not> isValidEmail (toLowerCase (sanitizeInput emailInput))
    \<longrightarrow> isJoining (state (join config options emailInput answer s)) = isJoining s)"
  by (auto simp: join_defs optionalCall_def Let_def ok_def
      split: fetched.splits sum.splits option.splits)

theorem join_success_witness:
  "isValidEmail (toLowerCase (sanitizeInput '' Ann@Shop.example ''))
   \<and> ok (Response 200 (Inr joinedOk))
   \<and> isJoined (state (join sampleConfig sampleOptions '' Ann@Shop.example ''
                         (Resolved (Response 200 (Inr joinedOk))) initialState))
   \<and> \<not> isJoining (state (join sampleConfig sampleOptions '' Ann@Shop.example ''
                            (Resolved (Response 200 (Inr joinedOk))) initialState))
   \<and> successMessage (state (join sampleConfig sampleOptions '' Ann@Shop.example ''
                               (Resolved (Response 200 (Inr joinedOk))) initialState)) =
       Some ''ok''
   \<and> \<not> isJoining (state (join sampleConfig sampleOptions '' Ann@Shop.example ''
                            (Rejected NonError) (initialState\<lparr>isJoining := True\<rparr>)))
   \<and> \<not> isValidEmail (toLowerCase (sanitizeInput ''Someone@Nowhere''))
   \<and> \<not> isJoining (state (join sampleConfig sampleOptions ''Someone@Nowhere''
                            (Rejected NonError) initialState))"
  using join_success_and_isJoining_cleared [of "'' Ann@Shop.example ''"
      "Response 200 (Inr joinedOk)" joinedOk sampleConfig sampleOptions initialState
      "Resolved (Response 200 (Inr joinedOk))"]
    join_success_and_isJoining_cleared [of "'' Ann@Shop.example ''"
      "Response 200 (Inr joinedOk)" joinedOk sampleConfig sampleOptions
      "initialState\<lparr>isJoining := True\<rparr>" "Rejected NonError"]
    join_success_and_isJoining_cleared [of "''Someone@Nowhere''"
      "Response 200 (Inr joinedOk)" joinedOk sampleConfig sampleOptions initialState
      "Rejected NonError"]
    sample_email_valid sample_email_invalid
  by (simp add: Let_def ok_def joinedOk_def initialState_def)

text \<open>
  C7 as stated asks for \<open>isJoining\<close> false after a \<open>join\<close> on the validation path too. A
  first \<open>join\<close> with a valid email sets \<open>isJoining\<close> and waits for its answer; a second
  \<open>join\<close> with an invalid email, called meanwhile, returns \<open>{success: false, error}\<close> with
  \<open>isJoining\<close> still true.
\<close>

theorem invalid_join_while_joining_keeps_isJoining:
  "joinBegin sampleConfig sampleOptions '' Ann@Shop.example '' initialState =
     Inr (\<lparr>email = [], isJoining = True, isLeaving = False, isJoined = False,
           WaitlistState.error = None, successMessage = None\<rparr>,
          joinRequest sampleConfig sampleOptions ''ann@shop.example'')
   \<and> \<not> isValidEmail (toLowerCase (sanitizeInput ''Someone@Nowhere''))
   \<and> join sampleConfig sampleOptions ''Someone@Nowhere'' (Rejected NonError)
       \<lparr>email = [], isJoining = True, isLeaving = False, isJoined = False,
        WaitlistState.error = None, successMessage = None\<rparr> =
       \<lparr>state = \<lparr>email = [], isJoining = True, isLeaving = False, isJoined = False,
                 WaitlistState.error = Some ''Please enter a valid email address.'',
                 successMessage = None\<rparr>,
        effects = [JoinError ''Please enter a valid email address.''],
        result = \<lparr>JoinWaitlistResponse.success = False, entryId = None,
                  JoinWaitlistResponse.message = None,
                  JoinWaitlistResponse.error = Some ''Please enter a valid email address.''\<rparr>\<rparr>"
  using sample_email_valid sample_email_invalid
  by (simp add: join_defs optionalCall_def Let_def sample_email_clean initialState_def
      sampleOptions_def DEFAULT_ERROR_MESSAGES_def)

text \<open>
  C2, as the code has it. Given a valid email, \<open>join\<close> and \<open>leave\<close> map an application-level
  failure (an answer other than 429 whose body parses, with a status outside 200 to 299 or
  \<open>success: false\<close>, and without an \<open>error\<close> field) to the \<open>unknown\<close> message, and a
  transport-level failure (no answer, or a body that is not JSON) to the \<open>network\<close> message.
  Either way the error callback is called with the message and the call returns: a
  transport-level failure returns \<open>{success: false, error}\<close>, an application-level failure
  returns the parsed body as it came.
\<close>

theorem failure_messages_unknown_and_network:
  assumes "isValidEmail (toLowerCase (sanitizeInput emailInput))"
  shows "(status res \<noteq> 429 \<and> json res = Inr r
            \<and> (\<not> ok res \<or> \<not> JoinWaitlistResponse.success r)
            \<and> JoinWaitlistResponse.error r = None
          \<longrightarrow> (let out = join config options emailInput (Resolved res) s;
                   msg = unknown DEFAULT_ERROR_MESSAGES
               in WaitlistState.error (state out) = Some msg
                  \<and> effects out =
                      Fetch (joinRequest config options (toLowerCase (sanitizeInput emailInput)))
                      # (if onJoinError options then [JoinError msg] else [])
                  \<and> result out = r))
       \<and> (answer = Rejected t \<or> (\<exists>res. answer = Resolved res \<and> status res \<noteq> 429 \<and> json res = Inl t)
          \<longrightarrow> (let out = join config options emailInput answer s;
                   msg = network DEFAULT_ERROR_MESSAGES
               in WaitlistState.error (state out) = Some msg
                  \<and> effects out =
                      Fetch (joinRequest config options (toLowerCase (sanitizeInput emailInput)))
                      # (if onJoinError options then [JoinError msg] else [])
                  \<and> result out =
                      \<lparr>JoinWaitlistResponse.success = False, entryId = None,
                       JoinWaitlistResponse.message = None,
                       JoinWaitlistResponse.error = Some msg\<rparr>))
       \<and> (status res' \<noteq> 429 \<and> json res' = Inr r'
            \<and> (\<not> ok res' \<or> \<not> LeaveWaitlistResponse.success r')
            \<and> LeaveWaitlistResponse.error r' = None
          \<longrightarrow> (let out = leave config options emailInput (Resolved res') s;
                   msg = unknown DEFAULT_ERROR_MESSAGES
               in WaitlistState.error (state out) = Some msg
                  \<and> effects out =
                      Fetch (leaveRequest config options (toLowerCase (sanitizeInput emailInput)))
                      # (if onLeaveError options then [LeaveError msg] else [])
                  \<and> result out = r'))
       \<and> (answer' = Rejected t \<or> (\<exists>res. answer' = Resolved res \<and> status res \<noteq> 429 \<and> json res = Inl t)
          \<longrightarrow> (let out = leave config options emailInput answer' s;
                   msg = network DEFAULT_ERROR_MESSAGES
               in WaitlistState.error (state out) = Some msg
                  \<and> effects out =
                      Fetch (leaveRequest config options (toLowerCase (sanitizeInput emailInput)))
                      # (if onLeaveError options then [LeaveError msg] else [])
                  \<and> result out =
                      \<lparr>LeaveWaitlistResponse.success = False,
                       LeaveWaitlistResponse.message = None,
                       LeaveWaitlistResponse.error = Some msg\<rparr>))"
  using assms by (auto simp: join_defs leave_defs optionalCall_def Let_def)

theorem failure_messages_witness:
  "isValidEmail (toLowerCase (sanitizeInput '' Ann@Shop.example ''))
   \<and> WaitlistState.error
       (state (join sampleConfig sampleOptions '' Ann@Shop.example ''
                 (Resolved (Response 500 (Inr refusedBare))) initialState)) =
       Some ''An unexpected error occurred.''
   \<and> result (join sampleConfig sampleOptions '' Ann@Shop.example ''
                (Resolved (Response 500 (Inr refusedBare))) initialState) = refusedBare
   \<and> result (join sampleConfig sampleOptions '' Ann@Shop.example ''
                (Resolved (Response 200 (Inl (Error ''Unexpected token'')))) initialState) =
       \<lparr>JoinWaitlistResponse.success = False, entryId = None,
        JoinWaitlistResponse.message = None,
        JoinWaitlistResponse.error = Some ''Network error. Please try again.''\<rparr>"
  using failure_messages_unknown_and_network [OF sample_email_valid,
      of "Response 500 (Inr refusedBare)" refusedBare sampleConfig sampleOptions initialState
         "Resolved (Response 200 (Inl (Error ''Unexpected token'')))" "Error ''Unexpected token''"]
    sample_email_valid
  by (simp add: Let_def ok_def refusedBare_def DEFAULT_ERROR_MESSAGES_def)

text \<open>
  C2 as stated asks for a result \<open>{success: false, error}\<close> on every failure.
  The body \<open>{success: false}\<close> under status 200 is returned without an \<open>error\<close>, and the
  body \<open>{success: true, message: "ok"}\<close> under status 500 is returned with \<open>success\<close> true,
  while the state carries the \<open>unknown\<close> message.
\<close>

theorem application_failure_result_without_error:
  "JoinWaitlistResponse.error
     (result (join sampleConfig sampleOptions '' Ann@Shop.example ''
                (Resolved (Response 200 (Inr refusedBare))) initialState)) = None
   \<and> WaitlistState.error
       (state (join sampleConfig sampleOptions '' Ann@Shop.example ''
                 (Resolved (Response 200 (Inr refusedBare))) initialState)) =
       Some ''An unexpected error occurred.''
   \<and> JoinWaitlistResponse.success
       (result (join sampleConfig sampleOptions '' Ann@Shop.example ''
                  (Resolved (Response 500 (Inr joinedOk))) initialState))"
  using sample_email_valid
  by (simp add: join_defs optionalCall_def Let_def ok_def refusedBare_def joinedOk_def
      DEFAULT_ERROR_MESSAGES_def)

section \<open>One instance over time\<close>

lemma joinBegin_flags:
  "joinBegin config options emailInput s = Inl r \<Longrightarrow>
     isJoining (state r) = isJoining s \<and> isLeaving (state r) = isLeaving s
     \<and> isJoined (state r) = isJoined s"
  "joinBegin config options emailInput s = Inr (s', request) \<Longrightarrow>
     isJoining s' \<and> isLeaving s' = isLeaving s \<and> isJoined s' = isJoined s"
  by (auto simp: joinBegin_def Let_def split: if_splits)

lemma leaveBegin_flags:
  "leaveBegin config options emailInput s = Inl r \<Longrightarrow>
     isJoining (state r) = isJoining s \<and> isLeaving (state r) = isLeaving s
     \<and> isJoined (state r) = isJoined s"
  "leaveBegin config options emailInput s = Inr (s', request) \<Longrightarrow>
     isLeaving s' \<and> isJoining s' = isJoining s \<and> isJoined s' = isJoined s"
  by (auto simp: leaveBegin_def Let_def split: if_splits)

lemma joinSettle_flags:
  "\<not> isJoining (state (joinSettle options answer s))"
  "isLeaving (state (joinSettle options answer s)) = isLeaving s"
  "isJoined (state (joinSettle options answer s)) = (isJoined s \<or> joinSucceeded answer)"
  by (auto simp: joinSettle_def joinTry_def joinCatch_def joinSucceeded_def ok_def Let_def
      split: fetched.splits sum.splits)

lemma leaveSettle_flags:
  "\<not> isLeaving (state (leaveSettle options answer s))"
  "isJoining (state (leaveSettle options answer s)) = isJoining s"
  "isJoined (state (leaveSettle options answer s)) = (isJoined s \<and> \<not> leaveSucceeded answer)"
  by (auto simp: leaveSettle_def leaveTry_def leaveCatch_def leaveSucceeded_def ok_def Let_def
      split: fetched.splits sum.splits)

lemma step_keeps_one_in_flight:
  assumes "joinsInFlight i + leavesInFlight i \<le> 1"
    and "isJoining (hook i) \<longrightarrow> joinsInFlight i = 1"
    and "isLeaving (hook i) \<longrightarrow> leavesInFlight i = 1"
    and "\<not> (isCall e \<and> 0 < joinsInFlight i + leavesInFlight i)"
    and "step config options e i = Some i'"
  shows "joinsInFlight i' + leavesInFlight i' \<le> 1
       \<and> (isJoining (hook i') \<longrightarrow> joinsInFlight i' = 1)
       \<and> (isLeaving (hook i') \<longrightarrow> leavesInFlight i' = 1)"
proof (cases e)
  case (CallJoin emailInput)
  with assms show ?thesis
    by (auto split: sum.splits dest: joinBegin_flags)
next
  case (AnswerJoin answer)
  with assms show ?thesis
    by (auto simp: joinSettle_flags split: if_splits)
next
  case (CallLeave emailInput)
  with assms show ?thesis
    by (auto split: sum.splits dest: leaveBegin_flags)
next
  case (AnswerLeave answer)
  with assms show ?thesis
    by (auto simp: leaveSettle_flags split: if_splits)
next
  case CallReset
  with assms show ?thesis
    by (auto simp: reset_def)
qed

lemma runOneAtATime_keeps_one_in_flight:
  assumes "runOneAtATime config options es i = Some i'"
    and "joinsInFlight i + leavesInFlight i \<le> 1"
    and "isJoining (hook i) \<longrightarrow> joinsInFlight i = 1"
    and "isLeaving (hook i) \<longrightarrow> leavesInFlight i = 1"
  shows "joinsInFlight i' + leavesInFlight i' \<le> 1
       \<and> (isJoining (hook i') \<longrightarrow> joinsInFlight i' = 1)
       \<and> (isLeaving (hook i') \<longrightarrow> leavesInFlight i' = 1)"
  using assms
proof (induction es arbitrary: i)
  case Nil
  then show ?case by simp
next
  case (Cons e es)
  from Cons.prems(1) obtain j where
    allowed: "\<not> (isCall e \<and> 0 < joinsInFlight i + leavesInFlight i)"
    and first: "step config options e i = Some j"
    and rest: "runOneAtATime config options es j = Some i'"
    by (auto split: if_splits option.splits)
  from step_keeps_one_in_flight [OF Cons.prems(2-4) allowed first]
  show ?case using Cons.IH [OF rest] by blast
qed

lemma step_isJoined_rises:
  assumes "step config options e i = Some i'" and "\<not> isJoined (hook i)" and "isJoined (hook i')"
  shows "\<exists>answer. e = AnswerJoin answer \<and> joinSucceeded answer"
  using assms
  by (cases e)
    (auto simp: joinSettle_flags leaveSettle_flags reset_def
      split: sum.splits if_splits dest: joinBegin_flags leaveBegin_flags)

lemma step_isJoined_falls:
  assumes "step config options e i = Some i'" and "isJoined (hook i)" and "\<not> isJoined (hook i')"
  shows "e = CallReset \<or> (\<exists>answer. e = AnswerLeave answer \<and> leaveSucceeded answer)"
  using assms
  by (cases e)
    (auto simp: joinSettle_flags leaveSettle_flags reset_def
      split: sum.splits if_splits dest: joinBegin_flags leaveBegin_flags)

text \<open>
  C1, as the code has it. On one instance of the hook: as long as no \<open>join\<close> or \<open>leave\<close>
  is called while a request of the instance is in flight, \<open>isJoining\<close> and \<open>isLeaving\<close>
  are never both true; and in every order of calls and answers, \<open>isJoined\<close> turns true only
  by the answer of a successful join, and turns false again only by the answer of a
  successful leave or by \<open>reset\<close>.
\<close>

theorem flags_apart_one_at_a_time_and_isJoined_changes:
  "(runOneAtATime config options es initialInstance = Some i
      \<longrightarrow> \<not> (isJoining (hook i) \<and> isLeaving (hook i)))
   \<and> (step config options e j = Some j' \<and> \<not> isJoined (hook j) \<and> isJoined (hook j')
      \<longrightarrow> (\<exists>answer. e = AnswerJoin answer \<and> joinSucceeded answer))
   \<and> (step config options e j = Some j' \<and> isJoined (hook j) \<and> \<not> isJoined (hook j')
      \<longrightarrow> e = CallReset \<or> (\<exists>answer. e = AnswerLeave answer \<and> leaveSucceeded answer))"
proof (intro conjI impI)
  assume "runOneAtATime config options es initialInstance = Some i"
  from runOneAtATime_keeps_one_in_flight [OF this]
  show "\<not> (isJoining (hook i) \<and> isLeaving (hook i))"
    by (auto simp: initialInstance_def initialState_def)
next
  assume "step config options e j = Some j' \<and> \<not> isJoined (hook j) \<and> isJoined (hook j')"
  then show "\<exists>answer. e = AnswerJoin answer \<and> joinSucceeded answer"
    using step_isJoined_rises by blast
next
  assume "step config options e j = Some j' \<and> isJoined (hook j) \<and> \<not> isJoined (hook j')"
  then show "e = CallReset \<or> (\<exists>answer. e = AnswerLeave answer \<and> leaveSucceeded answer)"
    using step_isJoined_falls by blast
qed


lemma step_CallJoin_sample:
  "step sampleConfig sampleOptions (CallJoin '' Ann@Shop.example '') initialInstance =
     Some awaitingJoin"
  using sample_email_valid
  by (simp add: joinBegin_def Let_def initialInstance_def initialState_def awaitingJoin_def)

lemma step_AnswerJoin_sample:
  "step sampleConfig sampleOptions (AnswerJoin (Resolved (Response 200 (Inr joinedOk))))
     awaitingJoin = Some joinedIdle"
  by (simp add: joinSettle_def joinTry_def ok_def joinedOk_def optionalCall_def Let_def
      awaitingJoin_def joinedIdle_def initialState_def)

lemma step_CallLeave_sample:
  "step sampleConfig sampleOptions (CallLeave '' Ann@Shop.example '') awaitingJoin =
     Some (awaitingJoin\<lparr>hook := (hook awaitingJoin)\<lparr>isLeaving := True\<rparr>, leavesInFlight := 1\<rparr>)"
  using sample_email_valid
  by (simp add: leaveBegin_def Let_def awaitingJoin_def initialState_def)

lemma sample_in_flight:
  "joinsInFlight initialInstance = 0" "leavesInFlight initialInstance = 0"
  "joinsInFlight awaitingJoin = 1" "leavesInFlight awaitingJoin = 0"
  by (simp_all add: initialInstance_def awaitingJoin_def)

theorem flags_and_isJoined_witness:
  "runOneAtATime sampleConfig sampleOptions
     [CallJoin '' Ann@Shop.example '', AnswerJoin (Resolved (Response 200 (Inr joinedOk)))]
     initialInstance = Some joinedIdle
   \<and> \<not> (isJoining (hook joinedIdle) \<and> isLeaving (hook joinedIdle))
   \<and> step sampleConfig sampleOptions (AnswerJoin (Resolved (Response 200 (Inr joinedOk))))
       awaitingJoin = Some joinedIdle
   \<and> \<not> isJoined (hook awaitingJoin) \<and> isJoined (hook joinedIdle)
   \<and> joinSucceeded (Resolved (Response 200 (Inr joinedOk)))
   \<and> step sampleConfig sampleOptions CallReset joinedIdle = Some initialInstance
   \<and> \<not> isJoined (hook initialInstance)"
proof -
  have run: "runOneAtATime sampleConfig sampleOptions
     [CallJoin '' Ann@Shop.example '', AnswerJoin (Resolved (Response 200 (Inr joinedOk)))]
     initialInstance = Some joinedIdle"
    by (simp add: step_CallJoin_sample step_AnswerJoin_sample sample_in_flight
        del: step.simps)
  have reset: "step sampleConfig sampleOptions CallReset joinedIdle = Some initialInstance"
    by (simp add: reset_def joinedIdle_def initialInstance_def initialState_def)
  have flags: "\<not> isJoined (hook awaitingJoin)" "isJoined (hook joinedIdle)"
    "\<not> isJoined (hook initialInstance)"
    by (simp_all add: awaitingJoin_def joinedIdle_def initialInstance_def initialState_def)
  from flags_apart_one_at_a_time_and_isJoined_changes [of sampleConfig sampleOptions
      "[CallJoin '' Ann@Shop.example '', AnswerJoin (Resolved (Response 200 (Inr joinedOk)))]"
      joinedIdle "AnswerJoin (Resolved (Response 200 (Inr joinedOk)))" awaitingJoin joinedIdle]
  show ?thesis using run reset flags step_AnswerJoin_sample by simp
qed

text \<open>
  C1 as stated fails twice: a \<open>leave\<close> called while a \<open>join\<close> is waiting for
  its answer makes both flags true, and \<open>reset\<close> after a successful \<open>join\<close> turns
  \<open>isJoined\<close> false without any leave.
\<close>

theorem flags_both_true_and_reset_clears_isJoined:
  "run sampleConfig sampleOptions
     [CallJoin '' Ann@Shop.example '', CallLeave '' Ann@Shop.example ''] initialInstance =
     Some \<lparr>hook = \<lparr>email = [], isJoining = True, isLeaving = True, isJoined = False,
                    WaitlistState.error = None, successMessage = None\<rparr>,
           joinsInFlight = 1, leavesInFlight = 1\<rparr>
   \<and> run sampleConfig sampleOptions
       [CallJoin '' Ann@Shop.example '', AnswerJoin (Resolved (Response 200 (Inr joinedOk)))]
       initialInstance =
       Some \<lparr>hook = \<lparr>email = [], isJoining = False, isLeaving = False, isJoined = True,
                      WaitlistState.error = None, successMessage = Some ''ok''\<rparr>,
             joinsInFlight = 0, leavesInFlight = 0\<rparr>
   \<and> run sampleConfig sampleOptions
       [CallJoin '' Ann@Shop.example '', AnswerJoin (Resolved (Response 200 (Inr joinedOk))),
        CallReset]
       initialInstance =
       Some \<lparr>hook = \<lparr>email = [], isJoining = False, isLeaving = False, isJoined = False,
                      WaitlistState.error = None, successMessage = None\<rparr>,
             joinsInFlight = 0, leavesInFlight = 0\<rparr>"
proof -
  have overlap: "run sampleConfig sampleOptions
     [CallJoin '' Ann@Shop.example '', CallLeave '' Ann@Shop.example ''] initialInstance =
     Some (awaitingJoin\<lparr>hook := (hook awaitingJoin)\<lparr>isLeaving := True\<rparr>, leavesInFlight := 1\<rparr>)"
    by (simp add: step_CallJoin_sample step_CallLeave_sample del: step.simps)
  have joined: "run sampleConfig sampleOptions
       [CallJoin '' Ann@Shop.example '', AnswerJoin (Resolved (Response 200 (Inr joinedOk)))]
       initialInstance = Some joinedIdle"
    by (simp add: step_CallJoin_sample step_AnswerJoin_sample del: step.simps)
  have cleared: "run sampleConfig sampleOptions
       [CallJoin '' Ann@Shop.example '', AnswerJoin (Resolved (Response 200 (Inr joinedOk))),
        CallReset]
       initialInstance = Some (joinedIdle\<lparr>hook := reset (hook joinedIdle)\<rparr>)"
    by (simp add: step_CallJoin_sample step_AnswerJoin_sample del: step.simps) simp
  show ?thesis
    unfolding overlap joined cleared
    by (simp add: awaitingJoin_def joinedIdle_def initialState_def reset_def)
qed

section \<open>Facts about the regular expressions\<close>

lemma matches_Never [simp]: "matches Never s = False"
  by (induction s) auto

lemma matches_Seq_Never [simp]: "matches (Seq Never r) s = False"
  by (induction s) auto

lemma matches_Alt [simp]: "matches (Alt r1 r2) s = (matches r1 s \<or> matches r2 s)"
  by (induction s arbitrary: r1 r2) auto

lemma matches_Seq_Empty [simp]: "matches (Seq Empty r) s = matches r s"
  by (cases s) auto

lemma matches_Star_Cls: "matches (Star (Cls p)) s = list_all p s"
  by (induction s) auto

lemma matches_Plus_Cls: "matches (Plus (Cls p)) s = (s \<noteq> [] \<and> list_all p s)"
  by (cases s) (auto simp: Plus_def matches_Star_Cls)

lemma matches_slash_digits:
  "matches (Seq (Lit CHR ''/'') (Plus (Cls isDigit))) s =
     (\<exists>cs. s = CHR ''/'' # cs \<and> cs \<noteq> [] \<and> list_all isDigit cs)"
  by (cases s) (auto simp: Lit_def matches_Plus_Cls)

lemma digit_not_slash: "isDigit c \<Longrightarrow> c \<noteq> CHR ''/''"
  by (auto simp: isDigit_def)

lemma search_digits_only:
  "list_all isDigit s \<Longrightarrow> searchToEnd (Seq (Lit CHR ''/'') (Plus (Cls isDigit))) s = None"
  by (induction s) (auto simp: matches_slash_digits simp del: matches.simps dest: digit_not_slash)

lemma extractNumericId_digits:
  assumes "list_all isDigit n"
  shows "extractNumericId n = n"
  using assms by (simp add: extractNumericId_def search_digits_only)

lemma search_skips:
  "c \<noteq> CHR ''/'' \<Longrightarrow>
     searchToEnd (Seq (Lit CHR ''/'') (Plus (Cls isDigit))) (c # cs) =
     searchToEnd (Seq (Lit CHR ''/'') (Plus (Cls isDigit))) cs"
  "\<not> list_all isDigit cs \<Longrightarrow>
     searchToEnd (Seq (Lit CHR ''/'') (Plus (Cls isDigit))) (c # cs) =
     searchToEnd (Seq (Lit CHR ''/'') (Plus (Cls isDigit))) cs"
  "cs \<noteq> [] \<Longrightarrow> list_all isDigit cs \<Longrightarrow>
     searchToEnd (Seq (Lit CHR ''/'') (Plus (Cls isDigit))) (CHR ''/'' # cs) =
     Some (CHR ''/'' # cs)"
  by (simp_all add: matches_slash_digits del: matches.simps)

lemma not_digit_chars:
  "\<not> isDigit CHR ''/''" "\<not> isDigit CHR ''s''" "\<not> isDigit CHR ''P''"
  by (simp_all add: isDigit_def)

lemma extractNumericId_gid_without_digits:
  "extractNumericId ''gid://shopify/ProductVariant/'' = ''gid://shopify/ProductVariant/''"
  by code_simp

lemma extractNumericId_gid:
  assumes "n \<noteq> []" and "list_all isDigit n"
  shows "extractNumericId (''gid://shopify/ProductVariant/'' @ n) = n"
  using assms
  by (simp add: extractNumericId_def search_skips not_digit_chars del: searchToEnd.simps)

section \<open>The waitlist count\<close>

lemmas fetchCount_defs = fetchCount_def fetchCountBegin_def fetchCountSettle_def fetchCountTry_def
  fetchCountCatch_def

text \<open>
  C4. In a \<open>fetchCount\<close> that reaches the network: a 404 gives a count of 0, writes
  \<open>{count: 0, timestamp: now}\<close> under the key into the cache, and leaves no error; any
  other status outside 200 to 299 sets an error string and a count of 0 and leaves the cache
  as it was, so that the next \<open>fetchCount\<close> for the key (at a time not before the first)
  asks the network again.
\<close>

theorem fetchCount_404_cached_other_failures_not:
  assumes "fetchCountBegin config options now w = Inr w1"
  shows "(status res = 404
          \<longrightarrow> (let w' = fetchCount config options now (Resolved res) later w
               in CountState.count (view w') = 0
                  \<and> countCache w' =
                      (countCache w)(cacheKey config options \<mapsto>
                         \<lparr>CacheEntry.count = 0, timestamp = later\<rparr>)
                  \<and> CountState.error (view w') = None))
       \<and> (\<not> ok res \<and> status res \<noteq> 404
          \<longrightarrow> (let w' = fetchCount config options now (Resolved res) later w
               in CountState.error (view w') = Some ''Failed to fetch waitlist count''
                  \<and> CountState.count (view w') = 0
                  \<and> countCache w' = countCache w
                  \<and> (now \<le> again
                      \<longrightarrow> fetchCountBegin config options again w' =
                            Inr (w'\<lparr>view := (view w')\<lparr>isLoading := True,
                                                        CountState.error := None\<rparr>,
                                    requests := requests w' @ [countRequest config options]\<rparr>))))"
  using assms
  by (auto simp: fetchCount_defs ok_def Let_def split: option.splits if_splits)

theorem fetchCount_404_witness:
  "fetchCountBegin sampleConfig sampleCountOptions 1000 emptyWorld =
     Inr (emptyWorld\<lparr>view := initialCountState\<lparr>isLoading := True\<rparr>,
                      requests := [countRequest sampleConfig sampleCountOptions]\<rparr>)
   \<and> countCache (fetchCount sampleConfig sampleCountOptions 1000
                   (Resolved (Response 404 (Inl NonError))) 1200 emptyWorld) =
       [cacheKey sampleConfig sampleCountOptions \<mapsto> \<lparr>CacheEntry.count = 0, timestamp = 1200\<rparr>]
   \<and> \<not> ok (Response 500 (Inr sevenWaiting))
   \<and> CountState.error
       (view (fetchCount sampleConfig sampleCountOptions 1000
                (Resolved (Response 500 (Inr sevenWaiting))) 1200 emptyWorld)) =
       Some ''Failed to fetch waitlist count''
   \<and> countCache (fetchCount sampleConfig sampleCountOptions 1000
                   (Resolved (Response 500 (Inr sevenWaiting))) 1200 emptyWorld) = Map.empty"
proof -
  have miss: "fetchCountBegin sampleConfig sampleCountOptions 1000 emptyWorld =
     Inr (emptyWorld\<lparr>view := initialCountState\<lparr>isLoading := True\<rparr>,
                      requests := [countRequest sampleConfig sampleCountOptions]\<rparr>)"
    by (simp add: fetchCountBegin_def emptyWorld_def initialCountState_def)
  from fetchCount_404_cached_other_failures_not [OF miss, of "Response 404 (Inl NonError)" 1200]
    fetchCount_404_cached_other_failures_not [OF miss, of "Response 500 (Inr sevenWaiting)" 1200]
  show ?thesis using miss
    by (simp add: Let_def ok_def emptyWorld_def)
qed

lemma fetchCountBegin_hit:
  assumes "countCache w (cacheKey config options) = Some cached"
    and "now - timestamp cached < cacheDurationOf options"
  shows "fetchCountBegin config options now w =
           Inl (w\<lparr>view := (view w)\<lparr>CountState.count := CacheEntry.count cached\<rparr>\<rparr>)"
  using assms by (simp add: fetchCountBegin_def)

lemma fetchCountBegin_miss:
  assumes "fetchCountBegin config options now w = Inr w1"
  shows "w1 = w\<lparr>view := (view w)\<lparr>isLoading := True, CountState.error := None\<rparr>,
                 requests := requests w @ [countRequest config options]\<rparr>"
  using assms by (auto simp: fetchCountBegin_def split: option.splits if_splits)

lemma fetchCountSettle_requests:
  "requests (fetchCountSettle config options answer later w) = requests w"
  by (simp add: fetchCountSettle_def fetchCountTry_def fetchCountCatch_def Let_def
      split: fetched.splits sum.splits)

lemma fetchCountSettle_writes:
  assumes "(ok res \<and> json res = Inr r) \<or> status res = 404"
  shows "\<exists>n. countCache (fetchCountSettle config options (Resolved res) later w)
               (cacheKey config options) = Some \<lparr>CacheEntry.count = n, timestamp = later\<rparr>"
  using assms
  by (auto simp: fetchCountSettle_def fetchCountTry_def ok_def Let_def)

lemma fetchCount_two_calls:
  assumes miss: "fetchCountBegin config options now w = Inr w1"
    and good: "(ok res \<and> json res = Inr r) \<or> status res = 404"
    and fresh: "again - later < cacheDurationOf options"
  shows "requests (fetchCount config options again answer later'
                     (fetchCount config options now (Resolved res) later w)) =
          requests w @ [countRequest config options]"
proof -
  let ?first = "fetchCount config options now (Resolved res) later w"
  have first: "?first = fetchCountSettle config options (Resolved res) later w1"
    using miss by (simp add: fetchCount_def)
  from fetchCountSettle_writes [OF good, of config options later w1] obtain n where
    entry: "countCache ?first (cacheKey config options) =
              Some \<lparr>CacheEntry.count = n, timestamp = later\<rparr>"
    unfolding first by blast
  have "fetchCountBegin config options again ?first =
          Inl (?first\<lparr>view := (view ?first)\<lparr>CountState.count := n\<rparr>\<rparr>)"
    using fetchCountBegin_hit [OF entry, of again] fresh by simp
  then have "requests (fetchCount config options again answer later' ?first) = requests ?first"
    by (simp add: fetchCount_def)
  also have "\<dots> = requests w1"
    unfolding first by (rule fetchCountSettle_requests)
  also have "\<dots> = requests w @ [countRequest config options]"
    using fetchCountBegin_miss [OF miss] by simp
  finally show ?thesis .
qed

lemma refetch_unfolded:
  "refetch config options now answer later w =
     fetchCountSettle config options answer later
       (w\<lparr>countCache := (countCache w)(cacheKey config options := None),
          view := (view w)\<lparr>isLoading := True, CountState.error := None\<rparr>,
          requests := requests w @ [countRequest config options]\<rparr>)"
  by (simp add: refetch_def fetchCount_def fetchCountBegin_def)

text \<open>
  C5. When the cache has an entry under the key whose age is below \<open>cacheDuration\<close>
  (60000 when none is given), \<open>fetchCount\<close> sets the cached count and hands nothing to
  \<open>fetch\<close>. So a call that went to the network and got a count (or a 404), followed by a
  call within the cache window, makes exactly one request. \<open>refetch\<close> deletes the entry
  under the key, then fetches, and so always makes a request.
\<close>

theorem fetchCount_cache_window_and_refetch:
  "(countCache w (cacheKey config options) = Some cached
      \<and> now - timestamp cached < cacheDurationOf options
    \<longrightarrow> fetchCount config options now answer later w =
          w\<lparr>view := (view w)\<lparr>CountState.count := CacheEntry.count cached\<rparr>\<rparr>)
   \<and> (cacheDuration options = None \<longrightarrow> cacheDurationOf options = 60000)
   \<and> (fetchCountBegin config options now w = Inr w1
        \<and> ((ok res \<and> json res = Inr r) \<or> status res = 404)
        \<and> again - later < cacheDurationOf options
    \<longrightarrow> requests (fetchCount config options again answer later'
                     (fetchCount config options now (Resolved res) later w)) =
          requests w @ [countRequest config options])
   \<and> refetch config options now answer later w =
       fetchCountSettle config options answer later
         (w\<lparr>countCache := (countCache w)(cacheKey config options := None),
            view := (view w)\<lparr>isLoading := True, CountState.error := None\<rparr>,
            requests := requests w @ [countRequest config options]\<rparr>)
   \<and> requests (refetch config options now answer later w) =
       requests w @ [countRequest config options]"
proof (intro conjI impI)
  assume "countCache w (cacheKey config options) = Some cached
      \<and> now - timestamp cached < cacheDurationOf options"
  then show "fetchCount config options now answer later w =
          w\<lparr>view := (view w)\<lparr>CountState.count := CacheEntry.count cached\<rparr>\<rparr>"
    by (simp add: fetchCount_def fetchCountBegin_hit)
next
  assume "cacheDuration options = None"
  then show "cacheDurationOf options = 60000"
    by (simp add: cacheDurationOf_def)
next
  assume "fetchCountBegin config options now w = Inr w1
        \<and> ((ok res \<and> json res = Inr r) \<or> status res = 404)
        \<and> again - later < cacheDurationOf options"
  then show "requests (fetchCount config options again answer later'
                     (fetchCount config options now (Resolved res) later w)) =
          requests w @ [countRequest config options]"
    using fetchCount_two_calls by blast
next
  show "refetch config options now answer later w =
       fetchCountSettle config options answer later
         (w\<lparr>countCache := (countCache w)(cacheKey config options := None),
            view := (view w)\<lparr>isLoading := True, CountState.error := None\<rparr>,
            requests := requests w @ [countRequest config options]\<rparr>)"
    by (rule refetch_unfolded)
next
  show "requests (refetch config options now answer later w) =
       requests w @ [countRequest config options]"
    by (simp add: refetch_unfolded fetchCountSettle_requests)
qed

theorem fetchCount_cache_window_witness:
  "countCache warmWorld (cacheKey sampleConfig sampleCountOptions) =
     Some \<lparr>CacheEntry.count = 7, timestamp = 1200\<rparr>
   \<and> (61199 :: int) - 1200 < cacheDurationOf sampleCountOptions
   \<and> fetchCount sampleConfig sampleCountOptions 61199 (Rejected NonError) 61300 warmWorld =
       warmWorld\<lparr>view := (view warmWorld)\<lparr>CountState.count := 7\<rparr>\<rparr>
   \<and> fetchCountBegin sampleConfig sampleCountOptions 1000 emptyWorld =
       Inr (emptyWorld\<lparr>view := initialCountState\<lparr>isLoading := True\<rparr>,
                        requests := [countRequest sampleConfig sampleCountOptions]\<rparr>)
   \<and> ok (Response 200 (Inr sevenWaiting))
   \<and> requests (fetchCount sampleConfig sampleCountOptions 61199 (Rejected NonError) 61300
                 (fetchCount sampleConfig sampleCountOptions 1000
                    (Resolved (Response 200 (Inr sevenWaiting))) 1200 emptyWorld)) =
       [countRequest sampleConfig sampleCountOptions]
   \<and> requests (refetch sampleConfig sampleCountOptions 61199 (Rejected NonError) 61300
                 warmWorld) = [countRequest sampleConfig sampleCountOptions]
   \<and> cacheDurationOf sampleCountOptions = 60000"
proof -
  have entry: "countCache warmWorld (cacheKey sampleConfig sampleCountOptions) =
     Some \<lparr>CacheEntry.count = 7, timestamp = 1200\<rparr>"
    by (simp add: warmWorld_def)
  have miss: "fetchCountBegin sampleConfig sampleCountOptions 1000 emptyWorld =
     Inr (emptyWorld\<lparr>view := initialCountState\<lparr>isLoading := True\<rparr>,
                      requests := [countRequest sampleConfig sampleCountOptions]\<rparr>)"
    by (simp add: fetchCountBegin_def emptyWorld_def initialCountState_def)
  have none: "cacheDuration sampleCountOptions = None"
    by (simp add: sampleCountOptions_def)
  from fetchCount_cache_window_and_refetch [of warmWorld sampleConfig sampleCountOptions
      "\<lparr>CacheEntry.count = 7, timestamp = 1200\<rparr>" 61199 "Rejected NonError" 61300]
    fetchCount_cache_window_and_refetch [of emptyWorld sampleConfig sampleCountOptions
      "\<lparr>CacheEntry.count = 0, timestamp = 0\<rparr>" 1000 "Rejected NonError" 1200
      "emptyWorld\<lparr>view := initialCountState\<lparr>isLoading := True\<rparr>,
                  requests := [countRequest sampleConfig sampleCountOptions]\<rparr>"
      "Response 200 (Inr sevenWaiting)" sevenWaiting 61199 61300]
  show ?thesis using entry miss none
    by (simp add: ok_def emptyWorld_def warmWorld_def fetchCountSettle_requests)
qed

lemma fetchCount_cong:
  assumes "extractNumericId (UseWaitlistCountOptions.variantId options) =
           extractNumericId (UseWaitlistCountOptions.variantId options')"
    and "cacheDuration options = cacheDuration options'"
  shows "fetchCount config options = fetchCount config options'"
    and "refetch config options = refetch config options'"
proof -
  have key: "cacheKey config options = cacheKey config options'"
    using assms by (simp add: cacheKey_def)
  have request: "countRequest config options = countRequest config options'"
    using assms by (simp add: countRequest_def)
  have duration: "cacheDurationOf options = cacheDurationOf options'"
    using assms by (simp add: cacheDurationOf_def)
  have starts: "fetchCountBegin config options = fetchCountBegin config options'"
    unfolding fetchCountBegin_def key request duration by (rule refl)
  have settle: "fetchCountSettle config options = fetchCountSettle config options'"
    unfolding fetchCountSettle_def fetchCountTry_def key by (rule refl)
  show "fetchCount config options = fetchCount config options'"
    unfolding fetchCount_def starts settle by (rule refl)
  then show "refetch config options = refetch config options'"
    unfolding refetch_def key by simp
qed

text \<open>
  C10. For every string \<open>n\<close> of one or more digits, \<open>extractNumericId\<close> gives \<open>n\<close> both
  for \<open>gid://shopify/ProductVariant/n\<close> and for \<open>n\<close> itself; so the cache key is the same
  for both forms of the identifier, and \<open>fetchCount\<close> and \<open>refetch\<close> do the same with
  either: they read, write and delete the same cache entry.
\<close>

theorem both_id_forms_one_cache_entry:
  assumes "n \<noteq> []" and "list_all isDigit n"
  shows "extractNumericId (''gid://shopify/ProductVariant/'' @ n) = n
       \<and> extractNumericId n = n
       \<and> cacheKey config
           (options\<lparr>UseWaitlistCountOptions.variantId := ''gid://shopify/ProductVariant/'' @ n\<rparr>) =
          shopDomain config @ '':'' @ n
       \<and> cacheKey config (options\<lparr>UseWaitlistCountOptions.variantId := n\<rparr>) =
          shopDomain config @ '':'' @ n
       \<and> fetchCount config
           (options\<lparr>UseWaitlistCountOptions.variantId := ''gid://shopify/ProductVariant/'' @ n\<rparr>) =
          fetchCount config (options\<lparr>UseWaitlistCountOptions.variantId := n\<rparr>)
       \<and> refetch config
           (options\<lparr>UseWaitlistCountOptions.variantId := ''gid://shopify/ProductVariant/'' @ n\<rparr>) =
          refetch config (options\<lparr>UseWaitlistCountOptions.variantId := n\<rparr>)"
proof -
  have gid: "extractNumericId (''gid://shopify/ProductVariant/'' @ n) = n"
    using assms by (rule extractNumericId_gid)
  have bare: "extractNumericId n = n"
    using assms(2) by (rule extractNumericId_digits)
  have same: "extractNumericId (UseWaitlistCountOptions.variantId
                (options\<lparr>UseWaitlistCountOptions.variantId := ''gid://shopify/ProductVariant/'' @ n\<rparr>)) =
              extractNumericId (UseWaitlistCountOptions.variantId
                (options\<lparr>UseWaitlistCountOptions.variantId := n\<rparr>))"
    using gid bare by simp
  show ?thesis
    using gid bare fetchCount_cong [OF same, of config]
    by (simp add: cacheKey_def)
qed

theorem both_id_forms_witness:
  "''42'' \<noteq> [] \<and> list_all isDigit ''42''
   \<and> extractNumericId ''gid://shopify/ProductVariant/42'' = ''42''
   \<and> extractNumericId ''42'' = ''42''
   \<and> cacheKey sampleConfig
       (sampleCountOptions\<lparr>UseWaitlistCountOptions.variantId := ''42''\<rparr>) = ''shop.example:42''
   \<and> fetchCount sampleConfig
       (sampleCountOptions\<lparr>UseWaitlistCountOptions.variantId := ''gid://shopify/ProductVariant/42''\<rparr>) =
      fetchCount sampleConfig (sampleCountOptions\<lparr>UseWaitlistCountOptions.variantId := ''42''\<rparr>)"
proof -
  have digits: "list_all isDigit ''42''"
    by (simp add: isDigit_def)
  from both_id_forms_one_cache_entry [OF _ digits, of sampleConfig sampleCountOptions]
  show ?thesis using digits
    by (simp add: sampleConfig_def)
qed

end
